theory Spec2Isabelle
  imports Complex_Main
begin

section \<open>PlayerController of whiteout: one simulation tick\<close>

text \<open>
  The development embeds \<^verbatim>\<open>src/player/PlayerController.js\<close>: the methods
  \<^verbatim>\<open>handleInput\<close>, \<^verbatim>\<open>handlePhysics\<close> and \<^verbatim>\<open>update\<close>, as functions from the
  controller's fields before the call to its fields after it.

  Conventions of the embedding.
  \<^item> A JavaScript number is a \<^typ>\<open>real\<close>: no rounding, no \<^verbatim>\<open>NaN\<close>, no infinity.
    The score is an \<^typ>\<open>int\<close>.
  \<^item> \<^verbatim>\<open>this.input.actions\<close> is read as one snapshot per tick, a record of booleans.
  \<^item> The fields set once in the constructor under the comment \<^verbatim>\<open>// Constants\<close> are
    constants here.
  \<^item> \<^verbatim>\<open>TrickSystem\<close> is imported from a file that is not part of the sources at
    hand. The controller calls it three ways (\<^verbatim>\<open>update\<close>, \<^verbatim>\<open>startJump\<close>, \<^verbatim>\<open>land\<close>).
    Its state is represented by the list of calls it has received so far, oldest
    first, and what \<^verbatim>\<open>land()\<close> returns is a parameter: any function of that history.
  \<^item> The terrain raycast is a parameter as well: a function from the ray origin to
    the first intersection, if any.
  \<^item> Of the scene graph only what the tick writes is kept: the vertical scale of
    the body (absent until the model has loaded), and position and Euler angles
    of the mesh.
\<close>

subsection \<open>Vectors (the operations of THREE.Vector3 that the controller uses)\<close>

record vec3 =
  vec_x :: real
  vec_y :: real
  vec_z :: real

definition Vector3 :: "real \<Rightarrow> real \<Rightarrow> real \<Rightarrow> vec3" where
  "Vector3 a b c = \<lparr>vec_x = a, vec_y = b, vec_z = c\<rparr>"

definition vadd :: "vec3 \<Rightarrow> vec3 \<Rightarrow> vec3" where
  "vadd v w = Vector3 (vec_x v + vec_x w) (vec_y v + vec_y w) (vec_z v + vec_z w)"

definition vsub :: "vec3 \<Rightarrow> vec3 \<Rightarrow> vec3" where
  "vsub v w = Vector3 (vec_x v - vec_x w) (vec_y v - vec_y w) (vec_z v - vec_z w)"

definition multiplyScalar :: "vec3 \<Rightarrow> real \<Rightarrow> vec3" where
  "multiplyScalar v k = Vector3 (vec_x v * k) (vec_y v * k) (vec_z v * k)"

text \<open>\<^verbatim>\<open>divideScalar(s)\<close> is \<^verbatim>\<open>multiplyScalar(1 / s)\<close> in three.js.\<close>

definition divideScalar :: "vec3 \<Rightarrow> real \<Rightarrow> vec3" where
  "divideScalar v k = multiplyScalar v (1 / k)"

definition vdot :: "vec3 \<Rightarrow> vec3 \<Rightarrow> real" where
  "vdot v w = vec_x v * vec_x w + vec_y v * vec_y w + vec_z v * vec_z w"

definition vlength :: "vec3 \<Rightarrow> real" where
  "vlength v = sqrt (vec_x v * vec_x v + vec_y v * vec_y v + vec_z v * vec_z v)"

text \<open>\<^verbatim>\<open>normalize()\<close> is \<^verbatim>\<open>divideScalar(this.length() || 1)\<close>: the zero vector stays.\<close>

definition vnormalize :: "vec3 \<Rightarrow> vec3" where
  "vnormalize v = divideScalar v (if vlength v = 0 then 1 else vlength v)"

definition setLength :: "vec3 \<Rightarrow> real \<Rightarrow> vec3" where
  "setLength v l = multiplyScalar (vnormalize v) l"

definition vnegate :: "vec3 \<Rightarrow> vec3" where
  "vnegate v = Vector3 (- vec_x v) (- vec_y v) (- vec_z v)"

text \<open>\<^verbatim>\<open>v.lerp(w, alpha)\<close>: each component moves by \<^verbatim>\<open>(w - v) * alpha\<close>.\<close>

definition vlerp :: "vec3 \<Rightarrow> vec3 \<Rightarrow> real \<Rightarrow> vec3" where
  "vlerp v w alpha =
     Vector3 (vec_x v + (vec_x w - vec_x v) * alpha)
             (vec_y v + (vec_y w - vec_y v) * alpha)
             (vec_z v + (vec_z w - vec_z v) * alpha)"

text \<open>
  Rotation about the world's vertical axis by \<open>theta\<close>. Both
  \<^verbatim>\<open>applyMatrix4(new Matrix4().makeRotationY(theta))\<close> and
  \<^verbatim>\<open>applyAxisAngle(new Vector3(0, 1, 0), theta)\<close> compute it.
\<close>

definition rotateY :: "real \<Rightarrow> vec3 \<Rightarrow> vec3" where
  "rotateY theta v =
     Vector3 (cos theta * vec_x v + sin theta * vec_z v)
             (vec_y v)
             (- sin theta * vec_x v + cos theta * vec_z v)"

text \<open>\<^verbatim>\<open>THREE.MathUtils.lerp(a, b, t)\<close> is \<^verbatim>\<open>(1 - t) * a + t * b\<close>.\<close>

definition lerp :: "real \<Rightarrow> real \<Rightarrow> real \<Rightarrow> real" where
  "lerp a b t = (1 - t) * a + t * b"

subsection \<open>Input snapshot, collaborators, controller state\<close>

record actions =
  forward :: bool
  backward :: bool
  left :: bool
  right :: bool
  spinLeft :: bool
  spinRight :: bool
  jump :: bool

text \<open>The calls the controller makes on its \<^verbatim>\<open>TrickSystem\<close>.\<close>

datatype trick_call =
  TrickUpdate real real   \<comment> \<open>\<^verbatim>\<open>trickSystem.update(dt, rotationDelta)\<close>\<close>
| StartJump               \<comment> \<open>\<^verbatim>\<open>trickSystem.startJump()\<close>\<close>
| Land                    \<comment> \<open>\<^verbatim>\<open>trickSystem.land()\<close>\<close>

text \<open>What \<^verbatim>\<open>land()\<close> returns: the controller reads \<^verbatim>\<open>points\<close> and \<^verbatim>\<open>name\<close>.\<close>

record trick =
  points :: int
  name :: string

text \<open>
  The first intersection of a downward ray with the terrain:
  \<^verbatim>\<open>intersects[0].point.y\<close>, and the face normal carried to world space
  (\<^verbatim>\<open>face.normal.clone().applyMatrix3(normalMatrix).normalize()\<close>).
\<close>

record hit =
  point_y :: real
  worldNormal :: vec3

type_synonym terrain = "vec3 \<Rightarrow> hit option"

record player =
  position :: vec3
  velocity :: vec3
  grounded :: bool
  jumpCharge :: real
  heading :: real
  pitch :: real
  roll :: real
  airTime :: real
  score :: int
  lastTruncName :: string
  trickSystem :: "trick_call list"
  body_scale_y :: "real option"
  mesh_position :: vec3
  mesh_rotation :: vec3

definition gravity :: real where "gravity = 30.0"
definition friction :: real where "friction = 0.2"
definition turnSpeed :: real where "turnSpeed = 3.0"
definition maxSpeed :: real where "maxSpeed = 60.0"
definition jumpForce :: real where "jumpForce = 10.0"
definition maxJumpCharge :: real where "maxJumpCharge = 1.0"

text \<open>\<^verbatim>\<open>if (this.body) this.body.scale.y = v\<close>\<close>

definition set_body_scale_y :: "real \<Rightarrow> player \<Rightarrow> player" where
  "set_body_scale_y v s = s\<lparr>body_scale_y := map_option (\<lambda>_. v) (body_scale_y s)\<rparr>"

subsection \<open>handleInput\<close>

text \<open>
  The local \<^verbatim>\<open>turn\<close> after the two statements
  \<^verbatim>\<open>if (left) { turn += 1; }  if (right) { turn -= 1; }\<close>.
\<close>

definition lateralTurn :: "actions \<Rightarrow> real" where
  "lateralTurn inp = (if left inp then 1 else 0) - (if right inp then 1 else 0)"

text \<open>The local \<^verbatim>\<open>rotationDelta\<close> once the block "Turning and Spinning" is through.\<close>

definition rotationDelta :: "real \<Rightarrow> actions \<Rightarrow> player \<Rightarrow> real" where
  "rotationDelta dt inp s =
     (let isFlipping = forward inp \<or> backward inp;
          isSpinning = left inp \<or> right inp
      in if grounded s then lateralTurn inp * turnSpeed * dt
         else if isFlipping then 0
         else if isSpinning then
           (let turn = lateralTurn inp;
                turn = (if spinLeft inp then turn + 2.0
                        else if spinRight inp then turn - 2.0 else turn);
                turn = turn * 2.0
            in turn * turnSpeed * dt)
         else 0)"

text \<open>
  "Turning and Spinning": the heading moves by \<^verbatim>\<open>rotationDelta\<close> on the ground and in
  spin mode, and is not assigned in flip mode or with no lateral input in the air.
\<close>

definition turning :: "real \<Rightarrow> actions \<Rightarrow> player \<Rightarrow> player" where
  "turning dt inp s =
     (let isFlipping = forward inp \<or> backward inp;
          isSpinning = left inp \<or> right inp
      in if grounded s then s\<lparr>heading := heading s + rotationDelta dt inp s\<rparr>
         else if isFlipping then s
         else if isSpinning then s\<lparr>heading := heading s + rotationDelta dt inp s\<rparr>
         else s)"

text \<open>"Flips", with the pitch reset of the ground.\<close>

definition flips :: "real \<Rightarrow> actions \<Rightarrow> player \<Rightarrow> player" where
  "flips dt inp s =
     (if \<not> grounded s then
        (let flipSpeed = 5.0
         in if forward inp then s\<lparr>pitch := pitch s - flipSpeed * dt\<rparr>
            else if backward inp then s\<lparr>pitch := pitch s + flipSpeed * dt\<rparr>
            else s)
      else
        (let p = lerp (pitch s) 0 (dt * 10)
         in s\<lparr>pitch := (if \<bar>p\<bar> < 0.1 then 0 else p)\<rparr>))"

text \<open>\<^verbatim>\<open>if (!this.grounded) this.trickSystem.update(dt, rotationDelta)\<close>\<close>

definition reportRotation :: "real \<Rightarrow> real \<Rightarrow> player \<Rightarrow> player" where
  "reportRotation dt rd s =
     (if \<not> grounded s then s\<lparr>trickSystem := trickSystem s @ [TrickUpdate dt rd]\<rparr> else s)"

text \<open>The launch of a jump: the body of \<^verbatim>\<open>if (this.jumpCharge > 0)\<close>.\<close>

definition launch :: "player \<Rightarrow> player" where
  "launch s =
     (let s = s\<lparr>grounded := False\<rparr>;
          s = s\<lparr>airTime := 1.0\<rparr>;
          finalForce = jumpForce * (0.8 + jumpCharge s * 1.5);
          s = (if vec_y (velocity s) < 0 then s\<lparr>velocity := (velocity s)\<lparr>vec_y := 0\<rparr>\<rparr> else s);
          s = s\<lparr>velocity := (velocity s)\<lparr>vec_y := vec_y (velocity s) + finalForce\<rparr>\<rparr>;
          s = s\<lparr>jumpCharge := 0\<rparr>;
          s = set_body_scale_y 1.0 s
      in s\<lparr>trickSystem := trickSystem s @ [StartJump]\<rparr>)"

text \<open>"Jumping - Coyote Time Support".\<close>

definition jumping :: "real \<Rightarrow> actions \<Rightarrow> player \<Rightarrow> player" where
  "jumping dt inp s =
     (if grounded s \<or> airTime s < 0.25 then
        (if jump inp then
           (let s = s\<lparr>jumpCharge := min (jumpCharge s + dt * 1.5) maxJumpCharge\<rparr>
            in set_body_scale_y (1.0 - jumpCharge s * 0.4) s)
         else
           (let s = (if jumpCharge s > 0 then launch s else s)
            in set_body_scale_y 1.0 s))
      else
        (if airTime s > 0.25 then set_body_scale_y 1.0 (s\<lparr>jumpCharge := 0\<rparr>) else s))"

definition handleInput :: "real \<Rightarrow> actions \<Rightarrow> player \<Rightarrow> player" where
  "handleInput dt inp s =
     jumping dt inp (reportRotation dt (rotationDelta dt inp s) (flips dt inp (turning dt inp s)))"

subsection \<open>handlePhysics\<close>

definition offsets :: "vec3 list" where
  "offsets =
     [Vector3 0 0 0,
      Vector3 (-0.3) 0 (-0.7),
      Vector3 0.3 0 (-0.7),
      Vector3 (-0.3) 0 0.7,
      Vector3 0.3 0 0.7]"

text \<open>The origin of the ray cast for one offset: three units above the rotated offset.\<close>

definition rayOrigin :: "vec3 \<Rightarrow> real \<Rightarrow> vec3 \<Rightarrow> vec3" where
  "rayOrigin pos theta offset =
     (let worldOffset = rotateY theta offset;
          origin = vadd pos worldOffset
      in origin\<lparr>vec_y := vec_y origin + 3.0\<rparr>)"

text \<open>
  The loop \<^verbatim>\<open>for (const offset of offsets)\<close>, on the accumulators
  \<^verbatim>\<open>(avgHeight, validHits, avgNormal)\<close>.
\<close>

fun castRays :: "terrain \<Rightarrow> vec3 \<Rightarrow> real \<Rightarrow> vec3 list \<Rightarrow> real \<times> nat \<times> vec3 \<Rightarrow> real \<times> nat \<times> vec3" where
  "castRays terrain pos theta [] acc = acc"
| "castRays terrain pos theta (offset # rest) (avgHeight, validHits, avgNormal) =
     (case terrain (rayOrigin pos theta offset) of
        None \<Rightarrow> castRays terrain pos theta rest (avgHeight, validHits, avgNormal)
      | Some h \<Rightarrow>
          castRays terrain pos theta rest
            (if validHits = 0 then point_y h else avgHeight + point_y h,
             Suc validHits,
             vadd avgNormal (worldNormal h)))"

text \<open>The pair \<^verbatim>\<open>(groundHeight, groundNormal)\<close> that the raycast block ends with.\<close>

definition probeGround :: "terrain \<Rightarrow> vec3 \<Rightarrow> real \<Rightarrow> real \<times> vec3" where
  "probeGround terrain pos theta =
     (case castRays terrain pos theta offsets (0, 0, Vector3 0 0 0) of
        (avgHeight, validHits, avgNormal) \<Rightarrow>
          (let avgHeight = (if validHits > 1 then avgHeight / real validHits else avgHeight)
           in if validHits > 0
              then (avgHeight, vnormalize (divideScalar avgNormal (real validHits)))
              else (-1000, Vector3 0 1 0)))"

definition groundHeight :: "terrain \<Rightarrow> player \<Rightarrow> real" where
  "groundHeight terrain s = fst (probeGround terrain (position s) (heading s))"

definition groundNormal :: "terrain \<Rightarrow> player \<Rightarrow> vec3" where
  "groundNormal terrain s = snd (probeGround terrain (position s) (heading s))"

definition snapDistance :: real where "snapDistance = 0.5"

text \<open>The test of \<^verbatim>\<open>// Check ground\<close>.\<close>

definition checkGround :: "terrain \<Rightarrow> player \<Rightarrow> bool" where
  "checkGround terrain s \<longleftrightarrow>
     (let distToGround = vec_y (position s) - groundHeight terrain s
      in distToGround \<le> snapDistance + 0.5 \<and> vec_y (velocity s) \<le> 0.1)"

text \<open>
  The body of \<^verbatim>\<open>if (!this.grounded)\<close> in the ground branch. \<open>land\<close> gives the
  result of \<^verbatim>\<open>trickSystem.land()\<close> from the calls received before it.
\<close>

definition landing :: "(trick_call list \<Rightarrow> trick) \<Rightarrow> player \<Rightarrow> player" where
  "landing land s =
     (let t = land (trickSystem s);
          s = s\<lparr>trickSystem := trickSystem s @ [Land]\<rparr>;
          s = (if points t > 0
               then s\<lparr>score := score s + points t, lastTruncName := name t\<rparr>
               else s)
      in s\<lparr>pitch := 0, roll := 0\<rparr>)"

text \<open>The velocity after the ground branch, from \<^verbatim>\<open>// Physics\<close> to its last line.\<close>

definition groundVelocity :: "real \<Rightarrow> actions \<Rightarrow> real \<Rightarrow> vec3 \<Rightarrow> vec3 \<Rightarrow> vec3" where
  "groundVelocity dt inp theta gn v =
     (let gravityVec = Vector3 0 (-1) 0;
          gravityComponent = vsub gravityVec (multiplyScalar gn (vdot gravityVec gn));
          v = vadd v (multiplyScalar gravityComponent (gravity * dt));
          currentFriction = (if backward inp then 5.0 else friction);
          v = multiplyScalar v (1 - currentFriction * dt);
          speed = vlength v;
          v = (if speed > 0.1 then
                 (let fwd = rotateY theta (Vector3 0 0 (-1));
                      velDir = vnormalize v;
                      d = vdot velDir fwd;
                      targetFacing = (if d \<ge> 0 then fwd else vnegate fwd);
                      slopeDir = vnormalize (vsub targetFacing
                                   (multiplyScalar gn (vdot targetFacing gn)));
                      grip = 8.0 * dt
                  in multiplyScalar (vlerp (vnormalize v) slopeDir grip) speed)
               else v);
          v = (if vlength v > maxSpeed then setLength v maxSpeed else v);
          vn = vdot v gn
      in if vn < 0 then vsub v (multiplyScalar gn vn) else v)"

text \<open>The velocity after the branch \<^verbatim>\<open>// AIR PHYSICS\<close>.\<close>

definition airVelocity :: "real \<Rightarrow> actions \<Rightarrow> real \<Rightarrow> vec3 \<Rightarrow> vec3" where
  "airVelocity dt inp theta v =
     (let v = v\<lparr>vec_y := vec_y v - gravity * dt\<rparr>;
          v = multiplyScalar v (1 - 0.05 * dt);
          isFlipping = forward inp \<or> backward inp
      in if isFlipping \<and> (left inp \<or> right inp) then
           (let steerDir = Vector3 0 0 0;
                steerDir = (if left inp then Vector3 (-1) 0 0 else steerDir);
                steerDir = (if right inp then Vector3 1 0 0 else steerDir);
                steerDir = rotateY theta steerDir;
                airSteerSpeed = 15.0
            in vadd v (multiplyScalar steerDir (airSteerSpeed * dt)))
         else v)"

definition handlePhysics ::
    "real \<Rightarrow> actions \<Rightarrow> terrain \<Rightarrow> (trick_call list \<Rightarrow> trick) \<Rightarrow> player \<Rightarrow> player" where
  "handlePhysics dt inp terrain land s =
     (let gh = groundHeight terrain s;
          gn = groundNormal terrain s;
          s = (if checkGround terrain s then
                 (let s = (if \<not> grounded s then landing land s else s);
                      s = s\<lparr>grounded := True\<rparr>;
                      s = s\<lparr>airTime := 0\<rparr>;
                      s = s\<lparr>position := (position s)\<lparr>vec_y := gh\<rparr>\<rparr>
                  in s\<lparr>velocity := groundVelocity dt inp (heading s) gn (velocity s)\<rparr>)
               else
                 (let s = s\<lparr>grounded := False\<rparr>;
                      s = s\<lparr>airTime := airTime s + dt\<rparr>
                  in s\<lparr>velocity := airVelocity dt inp (heading s) (velocity s)\<rparr>))
      in s\<lparr>position := vadd (position s) (multiplyScalar (velocity s) dt)\<rparr>)"

subsection \<open>update\<close>

definition update ::
    "real \<Rightarrow> actions \<Rightarrow> terrain \<Rightarrow> (trick_call list \<Rightarrow> trick) \<Rightarrow> player \<Rightarrow> player" where
  "update dt inp terrain land s =
     (let s = handleInput dt inp s;
          s = handlePhysics dt inp terrain land s;
          s = s\<lparr>mesh_position := position s\<rparr>;
          s = s\<lparr>mesh_rotation := (mesh_rotation s)\<lparr>vec_y := heading s\<rparr>\<rparr>;
          s = s\<lparr>mesh_rotation := (mesh_rotation s)\<lparr>vec_x := pitch s\<rparr>\<rparr>;
          s = (if grounded s then
                 (let lean = (if left inp then 1 else 0) - (if right inp then 1 else 0);
                      targetLean = lean * 0.5
                  in s\<lparr>roll := lerp (roll s) targetLean (dt * 5)\<rparr>)
               else s\<lparr>roll := lerp (roll s) 0 (dt * 2)\<rparr>)
      in s\<lparr>mesh_rotation := (mesh_rotation s)\<lparr>vec_z := roll s\<rparr>\<rparr>)"

subsection \<open>Names for the guards of the two transitions\<close>

text \<open>
  The condition under which \<^verbatim>\<open>handleInput\<close> reaches the launch: charging is
  permitted, the jump action is not held, and there is charge to release.
\<close>

definition jumpReleased :: "actions \<Rightarrow> player \<Rightarrow> bool" where
  "jumpReleased inp s \<longleftrightarrow>
     (grounded s \<or> airTime s < 0.25) \<and> \<not> jump inp \<and> jumpCharge s > 0"

text \<open>
  The condition under which \<^verbatim>\<open>handlePhysics\<close> reaches \<^verbatim>\<open>trickSystem.land()\<close>: the
  ground test succeeds while \<^verbatim>\<open>this.grounded\<close> is still false.
\<close>

definition landsNow :: "terrain \<Rightarrow> player \<Rightarrow> bool" where
  "landsNow terrain s \<longleftrightarrow> checkGround terrain s \<and> \<not> grounded s"

subsection \<open>The average ground elevation, as the specification words it\<close>

text \<open>
  The specification speaks of the average elevation over all successful hits, and of
  an elevation far below when there is none. These two definitions follow those words;
  \<open>groundHeight_average\<close> below compares them with the loop of the source.
\<close>

definition successfulHits :: "terrain \<Rightarrow> vec3 \<Rightarrow> real \<Rightarrow> hit list" where
  "successfulHits terrain pos theta =
     List.map_filter (\<lambda>offset. terrain (rayOrigin pos theta offset)) offsets"

definition averageGroundElevation :: "terrain \<Rightarrow> vec3 \<Rightarrow> real \<Rightarrow> real" where
  "averageGroundElevation terrain pos theta =
     (let hs = successfulHits terrain pos theta
      in if hs = [] then -1000 else sum_list (map point_y hs) / real (length hs))"

subsection \<open>The constructor's state, and concrete inputs for the examples\<close>

text \<open>The fields as the constructor leaves them; the model has not loaded yet.\<close>

definition initial :: player where
  "initial =
     \<lparr>position = Vector3 0 10 40, velocity = Vector3 0 0 0, grounded = False,
      jumpCharge = 0, heading = 0, pitch = 0, roll = 0, airTime = 0, score = 0,
      lastTruncName = '''', trickSystem = [], body_scale_y = None,
      mesh_position = Vector3 0 0 0, mesh_rotation = Vector3 0 0 0\<rparr>"

definition noActions :: actions where
  "noActions =
     \<lparr>forward = False, backward = False, left = False, right = False,
      spinLeft = False, spinRight = False, jump = False\<rparr>"

text \<open>A terrain that no ray meets, and a level terrain at elevation \<open>h\<close>.\<close>

definition emptyTerrain :: terrain where
  "emptyTerrain = (\<lambda>origin. None)"

definition flatTerrain :: "real \<Rightarrow> terrain" where
  "flatTerrain h = (\<lambda>origin. Some \<lparr>point_y = h, worldNormal = Vector3 0 1 0\<rparr>)"

text \<open>Two trick systems: one that never scores, one that always scores 100.\<close>

definition noTrick :: "trick_call list \<Rightarrow> trick" where
  "noTrick calls = \<lparr>points = 0, name = ''''\<rparr>"

definition someTrick :: "trick_call list \<Rightarrow> trick" where
  "someTrick calls = \<lparr>points = 100, name = ''Backflip''\<rparr>"

text \<open>On the ground with three quarters of a charge.\<close>

definition chargedOnGround :: player where
  "chargedOnGround =
     initial\<lparr>position := Vector3 0 0 40, grounded := True, jumpCharge := 0.75\<rparr>"

text \<open>At rest half a unit above level ground, and flagged as grounded.\<close>

definition restingAboveGround :: player where
  "restingAboveGround = initial\<lparr>position := Vector3 0 0.5 40, grounded := True\<rparr>"

text \<open>Airborne for 0.1 s and for 0.3 s, with some charge.\<close>

definition coyoteRider :: player where
  "coyoteRider = initial\<lparr>airTime := 0.1, jumpCharge := 0.3\<rparr>"

definition lateRider :: player where
  "lateRider = initial\<lparr>airTime := 0.3, jumpCharge := 0.45\<rparr>"

text \<open>Coming down, half a unit above level ground, mid flip and leaning.\<close>

definition descending :: player where
  "descending =
     initial\<lparr>position := Vector3 0 0.5 40, velocity := Vector3 0 (-2) 0,
            pitch := 1, roll := 0.3, airTime := 0.6\<rparr>"

text \<open>After a long fall with no terrain below.\<close>

definition fallenRider :: player where
  "fallenRider =
     initial\<lparr>position := Vector3 0 (-999.5) 40, velocity := Vector3 0 (-150) 0, airTime := 8\<rparr>"

section \<open>Properties\<close>

subsection \<open>What each phase of handleInput leaves alone, and what it writes\<close>

lemma turning_fields:
  "position (turning dt inp s) = position s"
  "velocity (turning dt inp s) = velocity s"
  "grounded (turning dt inp s) = grounded s"
  "jumpCharge (turning dt inp s) = jumpCharge s"
  "pitch (turning dt inp s) = pitch s"
  "roll (turning dt inp s) = roll s"
  "airTime (turning dt inp s) = airTime s"
  "score (turning dt inp s) = score s"
  "lastTruncName (turning dt inp s) = lastTruncName s"
  "trickSystem (turning dt inp s) = trickSystem s"
  by (simp_all add: turning_def Let_def)

lemma heading_turning:
  "heading (turning dt inp s) =
     (if grounded s \<or> (\<not> (forward inp \<or> backward inp) \<and> (left inp \<or> right inp))
      then heading s + rotationDelta dt inp s else heading s)"
  by (simp add: turning_def Let_def)

lemma flips_fields:
  "position (flips dt inp s) = position s"
  "velocity (flips dt inp s) = velocity s"
  "grounded (flips dt inp s) = grounded s"
  "jumpCharge (flips dt inp s) = jumpCharge s"
  "heading (flips dt inp s) = heading s"
  "roll (flips dt inp s) = roll s"
  "airTime (flips dt inp s) = airTime s"
  "score (flips dt inp s) = score s"
  "lastTruncName (flips dt inp s) = lastTruncName s"
  "trickSystem (flips dt inp s) = trickSystem s"
  by (simp_all add: flips_def Let_def)

lemma pitch_flips:
  "pitch (flips dt inp s) =
     (if grounded s then (if \<bar>lerp (pitch s) 0 (dt * 10)\<bar> < 0.1 then 0 else lerp (pitch s) 0 (dt * 10))
      else if forward inp then pitch s - 5.0 * dt
      else if backward inp then pitch s + 5.0 * dt
      else pitch s)"
  by (simp add: flips_def Let_def)

lemma reportRotation_fields:
  "position (reportRotation dt rd s) = position s"
  "velocity (reportRotation dt rd s) = velocity s"
  "grounded (reportRotation dt rd s) = grounded s"
  "jumpCharge (reportRotation dt rd s) = jumpCharge s"
  "heading (reportRotation dt rd s) = heading s"
  "pitch (reportRotation dt rd s) = pitch s"
  "roll (reportRotation dt rd s) = roll s"
  "airTime (reportRotation dt rd s) = airTime s"
  "score (reportRotation dt rd s) = score s"
  "lastTruncName (reportRotation dt rd s) = lastTruncName s"
  by (simp_all add: reportRotation_def)

lemma trickSystem_reportRotation:
  "trickSystem (reportRotation dt rd s) =
     trickSystem s @ (if grounded s then [] else [TrickUpdate dt rd])"
  by (simp add: reportRotation_def)

lemma jumping_fields:
  "position (jumping dt inp s) = position s"
  "heading (jumping dt inp s) = heading s"
  "pitch (jumping dt inp s) = pitch s"
  "roll (jumping dt inp s) = roll s"
  "score (jumping dt inp s) = score s"
  "lastTruncName (jumping dt inp s) = lastTruncName s"
  by (simp_all add: jumping_def launch_def set_body_scale_y_def Let_def)

lemma jumpCharge_jumping:
  "jumpCharge (jumping dt inp s) =
     (if grounded s \<or> airTime s < 0.25
      then (if jump inp then min (jumpCharge s + dt * 1.5) maxJumpCharge
            else if jumpCharge s > 0 then 0 else jumpCharge s)
      else (if airTime s > 0.25 then 0 else jumpCharge s))"
  by (simp add: jumping_def launch_def set_body_scale_y_def Let_def)

lemma grounded_jumping:
  "grounded (jumping dt inp s) = (grounded s \<and> \<not> jumpReleased inp s)"
  by (simp add: jumping_def launch_def set_body_scale_y_def Let_def jumpReleased_def)

lemma airTime_jumping:
  "airTime (jumping dt inp s) = (if jumpReleased inp s then 1.0 else airTime s)"
  by (simp add: jumping_def launch_def set_body_scale_y_def Let_def jumpReleased_def)

lemma velocity_jumping:
  "velocity (jumping dt inp s) =
     (if jumpReleased inp s
      then (velocity s)\<lparr>vec_y := (if vec_y (velocity s) < 0 then 0 else vec_y (velocity s))
                                  + jumpForce * (0.8 + jumpCharge s * 1.5)\<rparr>
      else velocity s)"
  by (simp add: jumping_def launch_def set_body_scale_y_def Let_def jumpReleased_def)

lemma trickSystem_jumping:
  "trickSystem (jumping dt inp s) =
     trickSystem s @ (if jumpReleased inp s then [StartJump] else [])"
  by (simp add: jumping_def launch_def set_body_scale_y_def Let_def jumpReleased_def)

lemmas phase_fields = turning_fields flips_fields reportRotation_fields jumping_fields

lemma jumpReleased_phases:
  "jumpReleased inp (reportRotation dt rd (flips dt inp (turning dt inp s))) = jumpReleased inp s"
  by (simp add: jumpReleased_def phase_fields)

lemma handleInput_fields:
  "position (handleInput dt inp s) = position s"
  "roll (handleInput dt inp s) = roll s"
  "score (handleInput dt inp s) = score s"
  "lastTruncName (handleInput dt inp s) = lastTruncName s"
  by (simp_all add: handleInput_def phase_fields)

lemma heading_handleInput:
  "heading (handleInput dt inp s) =
     (if grounded s \<or> (\<not> (forward inp \<or> backward inp) \<and> (left inp \<or> right inp))
      then heading s + rotationDelta dt inp s else heading s)"
  by (simp add: handleInput_def phase_fields heading_turning)

lemma pitch_handleInput:
  "pitch (handleInput dt inp s) =
     (if grounded s then (if \<bar>lerp (pitch s) 0 (dt * 10)\<bar> < 0.1 then 0 else lerp (pitch s) 0 (dt * 10))
      else if forward inp then pitch s - 5.0 * dt
      else if backward inp then pitch s + 5.0 * dt
      else pitch s)"
  by (simp add: handleInput_def phase_fields pitch_flips)

lemma jumpCharge_handleInput:
  "jumpCharge (handleInput dt inp s) =
     (if grounded s \<or> airTime s < 0.25
      then (if jump inp then min (jumpCharge s + dt * 1.5) maxJumpCharge
            else if jumpCharge s > 0 then 0 else jumpCharge s)
      else (if airTime s > 0.25 then 0 else jumpCharge s))"
  by (simp add: handleInput_def jumpCharge_jumping phase_fields)

lemma grounded_handleInput:
  "grounded (handleInput dt inp s) = (grounded s \<and> \<not> jumpReleased inp s)"
  by (simp add: handleInput_def grounded_jumping jumpReleased_phases phase_fields)

lemma airTime_handleInput:
  "airTime (handleInput dt inp s) = (if jumpReleased inp s then 1.0 else airTime s)"
  by (simp add: handleInput_def airTime_jumping jumpReleased_phases phase_fields)

lemma velocity_handleInput:
  "velocity (handleInput dt inp s) =
     (if jumpReleased inp s
      then (velocity s)\<lparr>vec_y := (if vec_y (velocity s) < 0 then 0 else vec_y (velocity s))
                                  + jumpForce * (0.8 + jumpCharge s * 1.5)\<rparr>
      else velocity s)"
  by (simp add: handleInput_def velocity_jumping jumpReleased_phases phase_fields)

lemma trickSystem_handleInput:
  "trickSystem (handleInput dt inp s) =
     trickSystem s
     @ (if grounded s then [] else [TrickUpdate dt (rotationDelta dt inp s)])
     @ (if jumpReleased inp s then [StartJump] else [])"
  by (simp add: handleInput_def trickSystem_jumping jumpReleased_phases phase_fields
        trickSystem_reportRotation)

subsection \<open>The raycast loop computes the average of the hits\<close>

lemma castRays_acc:
  "castRays terrain pos theta os (h, n, nv) =
     (let hs = List.map_filter (\<lambda>offset. terrain (rayOrigin pos theta offset)) os
      in (if hs = [] then h else (if n = 0 then 0 else h) + sum_list (map point_y hs),
          n + length hs,
          fold (\<lambda>k a. vadd a (worldNormal k)) hs nv))"
proof (induction os arbitrary: h n nv)
  case Nil
  then show ?case by simp
next
  case (Cons a os)
  then show ?case
    by (cases "terrain (rayOrigin pos theta a)") (simp_all add: Let_def)
qed

lemma fst_probeGround:
  "fst (probeGround terrain pos theta) = averageGroundElevation terrain pos theta"
proof -
  define hs where "hs = successfulHits terrain pos theta"
  have one: "real (length hs) = 1" if "hs \<noteq> []" "\<not> Suc 0 < length hs"
  proof -
    from that have "length hs = 1" by (cases hs) simp_all
    then show ?thesis by simp
  qed
  show ?thesis
    unfolding probeGround_def castRays_acc averageGroundElevation_def
      successfulHits_def [symmetric] hs_def [symmetric]
    by (simp add: Let_def one)
qed

lemma groundHeight_average:
  "groundHeight terrain s = averageGroundElevation terrain (position s) (heading s)"
  by (simp add: groundHeight_def fst_probeGround)

lemma probeGround_no_hits:
  assumes "\<forall>offset \<in> set offsets. terrain (rayOrigin pos theta offset) = None"
  shows "probeGround terrain pos theta = (-1000, Vector3 0 1 0)"
proof -
  have "List.map_filter (\<lambda>offset. terrain (rayOrigin pos theta offset)) os = []"
    if "\<forall>offset \<in> set os. terrain (rayOrigin pos theta offset) = None" for os
    using that by (induction os) simp_all
  with assms show ?thesis
    by (simp add: probeGround_def castRays_acc Let_def)
qed

subsection \<open>The fields after handlePhysics and after update\<close>

lemma handlePhysics_fields:
  "heading (handlePhysics dt inp terrain land s) = heading s"
  "jumpCharge (handlePhysics dt inp terrain land s) = jumpCharge s"
  "grounded (handlePhysics dt inp terrain land s) = checkGround terrain s"
  "airTime (handlePhysics dt inp terrain land s) =
     (if checkGround terrain s then 0 else airTime s + dt)"
  by (simp_all add: handlePhysics_def landing_def Let_def)

lemma pitch_handlePhysics:
  "pitch (handlePhysics dt inp terrain land s) = (if landsNow terrain s then 0 else pitch s)"
  by (simp add: handlePhysics_def landing_def Let_def landsNow_def)

lemma roll_handlePhysics:
  "roll (handlePhysics dt inp terrain land s) = (if landsNow terrain s then 0 else roll s)"
  by (simp add: handlePhysics_def landing_def Let_def landsNow_def)

lemma trickSystem_handlePhysics:
  "trickSystem (handlePhysics dt inp terrain land s) =
     trickSystem s @ (if landsNow terrain s then [Land] else [])"
  by (simp add: handlePhysics_def landing_def Let_def landsNow_def)

lemma score_handlePhysics:
  "score (handlePhysics dt inp terrain land s) =
     (if landsNow terrain s \<and> points (land (trickSystem s)) > 0
      then score s + points (land (trickSystem s)) else score s)"
  by (simp add: handlePhysics_def landing_def Let_def landsNow_def)

lemma lastTruncName_handlePhysics:
  "lastTruncName (handlePhysics dt inp terrain land s) =
     (if landsNow terrain s \<and> points (land (trickSystem s)) > 0
      then name (land (trickSystem s)) else lastTruncName s)"
  by (simp add: handlePhysics_def landing_def Let_def landsNow_def)

lemma velocity_handlePhysics:
  "velocity (handlePhysics dt inp terrain land s) =
     (if checkGround terrain s
      then groundVelocity dt inp (heading s) (groundNormal terrain s) (velocity s)
      else airVelocity dt inp (heading s) (velocity s))"
  by (simp add: handlePhysics_def landing_def Let_def)

lemma position_handlePhysics:
  "position (handlePhysics dt inp terrain land s) =
     vadd (if checkGround terrain s then (position s)\<lparr>vec_y := groundHeight terrain s\<rparr>
           else position s)
          (multiplyScalar (velocity (handlePhysics dt inp terrain land s)) dt)"
  by (simp add: handlePhysics_def landing_def Let_def)

lemma update_fields:
  "position (update dt inp terrain land s) =
     position (handlePhysics dt inp terrain land (handleInput dt inp s))"
  "velocity (update dt inp terrain land s) =
     velocity (handlePhysics dt inp terrain land (handleInput dt inp s))"
  "grounded (update dt inp terrain land s) =
     grounded (handlePhysics dt inp terrain land (handleInput dt inp s))"
  "jumpCharge (update dt inp terrain land s) =
     jumpCharge (handlePhysics dt inp terrain land (handleInput dt inp s))"
  "heading (update dt inp terrain land s) =
     heading (handlePhysics dt inp terrain land (handleInput dt inp s))"
  "pitch (update dt inp terrain land s) =
     pitch (handlePhysics dt inp terrain land (handleInput dt inp s))"
  "airTime (update dt inp terrain land s) =
     airTime (handlePhysics dt inp terrain land (handleInput dt inp s))"
  "score (update dt inp terrain land s) =
     score (handlePhysics dt inp terrain land (handleInput dt inp s))"
  "lastTruncName (update dt inp terrain land s) =
     lastTruncName (handlePhysics dt inp terrain land (handleInput dt inp s))"
  "trickSystem (update dt inp terrain land s) =
     trickSystem (handlePhysics dt inp terrain land (handleInput dt inp s))"
  by (simp_all add: update_def Let_def)

lemma roll_update:
  "roll (update dt inp terrain land s) =
     (let s2 = handlePhysics dt inp terrain land (handleInput dt inp s)
      in if grounded s2
         then lerp (roll s2) (((if left inp then 1 else 0) - (if right inp then 1 else 0)) * 0.5) (dt * 5)
         else lerp (roll s2) 0 (dt * 2))"
  by (simp add: update_def Let_def)

subsection \<open>The fields after a whole tick\<close>

lemma checkGround_iff:
  "checkGround terrain s \<longleftrightarrow>
     vec_y (position s) - averageGroundElevation terrain (position s) (heading s)
       \<le> snapDistance + 0.5
     \<and> vec_y (velocity s) \<le> 0.1"
  by (simp add: checkGround_def Let_def groundHeight_average)

lemma launch_speed:
  assumes "jumpReleased inp s"
  shows "vec_y (velocity (handleInput dt inp s)) > 8"
proof -
  from assms have c: "jumpCharge s > 0" by (simp add: jumpReleased_def)
  then have "jumpForce * (0.8 + jumpCharge s * 1.5) > 8"
    by (simp add: jumpForce_def)
  with assms show ?thesis
    by (simp add: velocity_handleInput)
qed

lemma released_stays_airborne:
  assumes "jumpReleased inp s"
  shows "\<not> checkGround terrain (handleInput dt inp s)"
  using launch_speed [OF assms, of dt] by (simp add: checkGround_iff)

lemma landsNow_handleInput:
  "landsNow terrain (handleInput dt inp s) \<longleftrightarrow>
     \<not> grounded s \<and> checkGround terrain (handleInput dt inp s)"
  using released_stays_airborne [of inp s terrain dt]
  by (auto simp: landsNow_def grounded_handleInput)

lemma grounded_update:
  "grounded (update dt inp terrain land s) = checkGround terrain (handleInput dt inp s)"
  by (simp add: update_fields handlePhysics_fields)

lemma grounded_update_not_released:
  "grounded (update dt inp terrain land s) \<Longrightarrow> \<not> jumpReleased inp s"
  using released_stays_airborne [of inp s terrain dt] by (auto simp: grounded_update)

lemma jumpCharge_update:
  "jumpCharge (update dt inp terrain land s) = jumpCharge (handleInput dt inp s)"
  by (simp add: update_fields handlePhysics_fields)

lemma trickSystem_update:
  "trickSystem (update dt inp terrain land s) =
     trickSystem s
     @ (if grounded s then [] else [TrickUpdate dt (rotationDelta dt inp s)])
     @ (if jumpReleased inp s then [StartJump] else [])
     @ (if \<not> grounded s \<and> grounded (update dt inp terrain land s) then [Land] else [])"
  by (simp add: update_fields handlePhysics_fields trickSystem_handlePhysics
        landsNow_handleInput trickSystem_handleInput)

lemma pitch_update:
  "pitch (update dt inp terrain land s) =
     (if \<not> grounded s \<and> grounded (update dt inp terrain land s) then 0
      else pitch (handleInput dt inp s))"
  by (simp add: update_fields handlePhysics_fields pitch_handlePhysics landsNow_handleInput)

lemma heading_update:
  "heading (update dt inp terrain land s) = heading (handleInput dt inp s)"
  by (simp add: update_fields handlePhysics_fields)

lemma averageGroundElevation_flat:
  "averageGroundElevation (flatTerrain h) pos theta = h"
  by (simp add: averageGroundElevation_def successfulHits_def offsets_def flatTerrain_def)

lemma successfulHits_empty: "successfulHits emptyTerrain pos theta = []"
  by (simp add: successfulHits_def offsets_def emptyTerrain_def)

lemma vec_y_vadd: "vec_y (vadd v w) = vec_y v + vec_y w"
  by (simp add: vadd_def Vector3_def)

lemma vec_y_multiplyScalar: "vec_y (multiplyScalar v k) = vec_y v * k"
  by (simp add: multiplyScalar_def Vector3_def)

lemma airTime_update:
  "airTime (update dt inp terrain land s) =
     (if grounded (update dt inp terrain land s) then 0 else airTime (handleInput dt inp s) + dt)"
  by (simp add: update_fields handlePhysics_fields)

lemma score_update:
  "score (update dt inp terrain land s) =
     (if \<not> grounded s \<and> grounded (update dt inp terrain land s)
         \<and> points (land (trickSystem (handleInput dt inp s))) > 0
      then score s + points (land (trickSystem (handleInput dt inp s)))
      else score s)"
  by (simp add: update_fields handlePhysics_fields score_handlePhysics landsNow_handleInput
        handleInput_fields)

lemma lastTruncName_update:
  "lastTruncName (update dt inp terrain land s) =
     (if \<not> grounded s \<and> grounded (update dt inp terrain land s)
         \<and> points (land (trickSystem (handleInput dt inp s))) > 0
      then name (land (trickSystem (handleInput dt inp s)))
      else lastTruncName s)"
  by (simp add: update_fields handlePhysics_fields lastTruncName_handlePhysics
        landsNow_handleInput handleInput_fields)

lemma successfulHits_Nil_iff:
  "successfulHits terrain pos theta = [] \<longleftrightarrow>
     (\<forall>offset \<in> set offsets. terrain (rayOrigin pos theta offset) = None)"
proof -
  have "List.map_filter f os = [] \<longleftrightarrow> (\<forall>a \<in> set os. f a = None)"
    for f :: "vec3 \<Rightarrow> hit option" and os
    by (induction os) (auto simp: List.map_filter_simps split: option.splits)
  then show ?thesis by (simp add: successfulHits_def)
qed

lemma rotationDelta_roll: "rotationDelta dt inp (s\<lparr>roll := r\<rparr>) = rotationDelta dt inp s"
  by (simp add: rotationDelta_def)

lemma turning_roll: "turning dt inp (s\<lparr>roll := r\<rparr>) = (turning dt inp s)\<lparr>roll := r\<rparr>"
  by (simp add: turning_def rotationDelta_roll Let_def)

lemma flips_roll: "flips dt inp (s\<lparr>roll := r\<rparr>) = (flips dt inp s)\<lparr>roll := r\<rparr>"
  by (simp add: flips_def Let_def)

lemma reportRotation_roll:
  "reportRotation dt rd (s\<lparr>roll := r\<rparr>) = (reportRotation dt rd s)\<lparr>roll := r\<rparr>"
  by (simp add: reportRotation_def)

lemma jumping_roll: "jumping dt inp (s\<lparr>roll := r\<rparr>) = (jumping dt inp s)\<lparr>roll := r\<rparr>"
  by (simp add: jumping_def launch_def set_body_scale_y_def Let_def)

lemma handleInput_roll:
  "handleInput dt inp (s\<lparr>roll := r\<rparr>) = (handleInput dt inp s)\<lparr>roll := r\<rparr>"
  by (simp add: handleInput_def rotationDelta_roll turning_roll flips_roll reportRotation_roll
        jumping_roll)

lemma checkGround_roll: "checkGround terrain (s\<lparr>roll := r\<rparr>) = checkGround terrain s"
  by (simp add: checkGround_def groundHeight_def)

lemma handlePhysics_roll:
  "handlePhysics dt inp terrain land (s\<lparr>roll := r\<rparr>) =
     (handlePhysics dt inp terrain land s)
       \<lparr>roll := (if landsNow terrain s then 0 else r)\<rparr>"
  by (simp add: handlePhysics_def landing_def checkGround_roll groundHeight_def
        groundNormal_def landsNow_def Let_def)

lemma update_roll:
  "update dt inp terrain land (s\<lparr>roll := r\<rparr>) =
     (update dt inp terrain land s)
       \<lparr>roll := roll (update dt inp terrain land (s\<lparr>roll := r\<rparr>)),
        mesh_rotation := (mesh_rotation (update dt inp terrain land s))
           \<lparr>vec_z := roll (update dt inp terrain land (s\<lparr>roll := r\<rparr>))\<rparr>\<rparr>"
  by (simp add: update_def handleInput_roll handlePhysics_roll Let_def)

lemma Vector3_eta: "Vector3 (vec_x v) (vec_y v) (vec_z v) = v"
  by (simp add: Vector3_def)

lemma multiplyScalar_one: "multiplyScalar v 1 = v"
  by (simp add: multiplyScalar_def Vector3_eta)

lemma vadd_multiplyScalar_zero: "vadd v (multiplyScalar w 0) = v"
  by (simp add: vadd_def multiplyScalar_def Vector3_def)

lemma vlerp_zero: "vlerp v w 0 = v"
  by (simp add: vlerp_def Vector3_eta)

lemma normalize_rescale:
  assumes "vlength v \<noteq> 0"
  shows "multiplyScalar (vnormalize v) (vlength v) = v"
  using assms
  by (simp add: vnormalize_def divideScalar_def multiplyScalar_def Vector3_def)

lemma airVelocity_zero: "airVelocity 0 inp theta v = v"
  by (simp add: airVelocity_def Let_def multiplyScalar_one vadd_multiplyScalar_zero)

lemma groundVelocity_zero:
  assumes "vlength v \<le> maxSpeed" and "0 \<le> vdot v gn"
  shows "groundVelocity 0 inp theta gn v = v"
proof (cases "vlength v > 0.1")
  case True
  then have "vlength v \<noteq> 0" by simp
  then have "multiplyScalar (vnormalize v) (vlength v) = v"
    by (rule normalize_rescale)
  with True assms show ?thesis
    by (simp add: groundVelocity_def Let_def vadd_multiplyScalar_zero multiplyScalar_one
          vlerp_zero)
next
  case False
  with assms show ?thesis
    by (simp add: groundVelocity_def Let_def vadd_multiplyScalar_zero multiplyScalar_one)
qed

lemma rotationDelta_zero: "rotationDelta 0 inp s = 0"
  by (simp add: rotationDelta_def Let_def)

lemma position_update:
  "position (update dt inp terrain land s) =
     vadd (if grounded (update dt inp terrain land s)
           then (position s)
                 \<lparr>vec_y := averageGroundElevation terrain (position s)
                             (heading (handleInput dt inp s))\<rparr>
           else position s)
          (multiplyScalar (velocity (update dt inp terrain land s)) dt)"
  by (simp add: update_fields(1,2) grounded_update position_handlePhysics
        groundHeight_average handleInput_fields)

lemma velocity_update:
  "velocity (update dt inp terrain land s) =
     (if grounded (update dt inp terrain land s)
      then groundVelocity dt inp (heading (handleInput dt inp s))
             (groundNormal terrain (handleInput dt inp s)) (velocity (handleInput dt inp s))
      else airVelocity dt inp (heading (handleInput dt inp s)) (velocity (handleInput dt inp s)))"
  by (simp add: update_fields(2) grounded_update velocity_handlePhysics)

text \<open>
  The vertical velocity after the air branch: the steering of a flip is horizontal.
\<close>

lemma vec_y_airVelocity_any:
  "vec_y (airVelocity dt inp theta v) = (vec_y v - gravity * dt) * (1 - 0.05 * dt)"
  by (simp add: airVelocity_def Let_def vec_y_multiplyScalar vec_y_vadd rotateY_def Vector3_def)

text \<open>
  The end of a tick on which a jump is released: \<^verbatim>\<open>handlePhysics\<close> takes its air
  branch on the launched state, so the second of air time set by the launch has grown
  by \<open>dt\<close> when the update returns.
\<close>

lemma update_after_release:
  assumes "jumpReleased inp s"
  shows "\<not> grounded (update dt inp terrain land s)
     \<and> airTime (update dt inp terrain land s) = 1.0 + dt
     \<and> jumpCharge (update dt inp terrain land s) = 0"
proof -
  from assms have air: "\<not> grounded (update dt inp terrain land s)"
    using grounded_update_not_released by blast
  have jc: "jumpCharge (handleInput dt inp s) = 0"
    using assms by (simp add: jumpCharge_handleInput jumpReleased_def)
  from assms air jc show ?thesis
    by (simp add: airTime_update airTime_handleInput jumpCharge_update)
qed

subsection \<open>A rider that leaves the terrain lands on the plane at -1000\<close>

lemma vec_y_airVelocity:
  "vec_y (airVelocity dt noActions theta v) = (vec_y v - gravity * dt) * (1 - 0.05 * dt)"
  by (simp add: airVelocity_def noActions_def Let_def vec_y_multiplyScalar)

lemma free_fall_tick:
  assumes "jumpCharge s = 0" and "vec_y (position s) > -999"
  shows "\<not> grounded (update dt noActions emptyTerrain land s)
     \<and> jumpCharge (update dt noActions emptyTerrain land s) = 0
     \<and> vec_y (velocity (update dt noActions emptyTerrain land s)) =
          (vec_y (velocity s) - gravity * dt) * (1 - 0.05 * dt)
     \<and> vec_y (position (update dt noActions emptyTerrain land s)) =
          vec_y (position s) + (vec_y (velocity s) - gravity * dt) * (1 - 0.05 * dt) * dt"
proof -
  have nr: "\<not> jumpReleased noActions s"
    using assms(1) by (simp add: jumpReleased_def)
  have air: "\<not> grounded (update dt noActions emptyTerrain land s)"
    using assms(2)
    by (simp add: grounded_update checkGround_iff handleInput_fields
          averageGroundElevation_def successfulHits_empty snapDistance_def)
  have jc: "jumpCharge (update dt noActions emptyTerrain land s) = 0"
    using assms(1) by (simp add: jumpCharge_update jumpCharge_handleInput noActions_def)
  have v: "vec_y (velocity (update dt noActions emptyTerrain land s)) =
          (vec_y (velocity s) - gravity * dt) * (1 - 0.05 * dt)"
    using air nr by (simp add: velocity_update vec_y_airVelocity velocity_handleInput)
  have p: "vec_y (position (update dt noActions emptyTerrain land s)) =
          vec_y (position s) + (vec_y (velocity s) - gravity * dt) * (1 - 0.05 * dt) * dt"
    using air by (simp add: position_update vec_y_vadd vec_y_multiplyScalar v)
  from air jc v p show ?thesis by simp
qed

text \<open>
  Ten ticks of one second from the constructor's state, over a terrain that no ray
  meets and with no input: the first nine are airborne, the tenth is grounded.
\<close>

lemma void_fall_lands:
  "\<not> grounded ((update 1 noActions emptyTerrain noTrick ^^ 9) initial)
   \<and> grounded ((update 1 noActions emptyTerrain noTrick ^^ 10) initial)"
proof -
  let ?f = "update 1 noActions emptyTerrain noTrick"
  define Q where "Q s py vy \<longleftrightarrow>
      jumpCharge s = 0 \<and> vec_y (position s) = py \<and> vec_y (velocity s) = vy"
    for s :: player and py vy :: real
  have step: "Q (?f s) (py + (vy - 30) * 0.95) ((vy - 30) * 0.95) \<and> \<not> grounded (?f s)"
    if "Q s py vy" "py > -999" for s py vy
    using that free_fall_tick [of s 1 noTrick]
    by (simp add: Q_def gravity_def)
  have q0: "Q initial 10 0"
    by (simp add: Q_def initial_def Vector3_def)
  from step [OF q0] have q1: "Q (?f initial) (-18.5) (-28.5)" by simp
  from step [OF q1] have q2: "Q ((?f ^^ 2) initial) (-74.075) (-55.575)"
    by (simp add: eval_nat_numeral)
  from step [OF q2] have q3: "Q ((?f ^^ 3) initial) (-155.37125) (-81.29625)"
    by (simp add: eval_nat_numeral)
  from step [OF q3] have q4: "Q ((?f ^^ 4) initial) (-261.1026875) (-105.7314375)"
    by (simp add: eval_nat_numeral)
  from step [OF q4] have q5: "Q ((?f ^^ 5) initial) (-390.047553125) (-128.944865625)"
    by (simp add: eval_nat_numeral)
  from step [OF q5] have q6: "Q ((?f ^^ 6) initial) (-541.04517546875) (-150.99762234375)"
    by (simp add: eval_nat_numeral)
  from step [OF q6] have q7: "Q ((?f ^^ 7) initial) (-712.9929166953125) (-171.9477412265625)"
    by (simp add: eval_nat_numeral)
  from step [OF q7] have q8:
    "Q ((?f ^^ 8) initial) (-904.843270860546875) (-191.850354165234375)"
    by (simp add: eval_nat_numeral)
  from step [OF q8] have q9:
    "Q ((?f ^^ 9) initial) (-1115.60110731751953125) (-210.75783645697265625)
     \<and> \<not> grounded ((?f ^^ 9) initial)"
    by (simp add: eval_nat_numeral)
  then have nr: "\<not> jumpReleased noActions ((?f ^^ 9) initial)"
    by (simp add: Q_def jumpReleased_def)
  have "grounded (?f ((?f ^^ 9) initial))"
    using q9 nr
    by (simp add: Q_def grounded_update checkGround_iff handleInput_fields
          averageGroundElevation_def successfulHits_empty snapDistance_def
          velocity_handleInput)
  with q9 show ?thesis
    by (simp add: eval_nat_numeral)
qed

section \<open>The claims\<close>

subsection \<open>C1: releasing a charged jump\<close>

text \<open>
  Claim C1. Take a state with \<open>jumpCharge = c > 0\<close> in which charging is permitted
  (grounded, or airborne with \<open>airTime < 0.25\<close>), and a tick on which the jump action
  is not held. Then the update releases the jump. Its first phase, \<^verbatim>\<open>handleInput\<close>,
  sets \<open>grounded\<close> to false and \<open>airTime\<close> to exactly 1.0, replaces a negative
  \<open>velocity.y\<close> by 0 and then adds \<open>jumpForce * (0.8 + c * 1.5)\<close> to it (the other
  two components stay), and resets \<open>jumpCharge\<close> to 0. Its second phase,
  \<^verbatim>\<open>handlePhysics\<close>, finds the launched rider moving up and takes the air branch on that
  state. So when the update returns, the rider is airborne, \<open>jumpCharge\<close> is 0, the
  air time is the 1.0 of the launch plus the \<open>dt\<close> of the air branch, the velocity is
  the launched one after the gravity and drag of one airborne tick, and the calls
  received by the trick system over the whole tick are the rotation report of a rider
  that started airborne, if any, and then exactly one \<open>StartJump\<close>; no landing is
  reported.
\<close>

theorem jump_release:
  assumes "jumpCharge s = c" and "c > 0"
    and "grounded s \<or> airTime s < 0.25" and "\<not> jump inp"
  shows "grounded (handleInput dt inp s) = False
     \<and> airTime (handleInput dt inp s) = 1.0
     \<and> velocity (handleInput dt inp s) =
         (velocity s)\<lparr>vec_y := (if vec_y (velocity s) < 0 then 0 else vec_y (velocity s))
                                  + jumpForce * (0.8 + c * 1.5)\<rparr>
     \<and> jumpCharge (handleInput dt inp s) = 0
     \<and> grounded (update dt inp terrain land s) = False
     \<and> airTime (update dt inp terrain land s) = airTime (handleInput dt inp s) + dt
     \<and> airTime (update dt inp terrain land s) = 1.0 + dt
     \<and> velocity (update dt inp terrain land s) =
         airVelocity dt inp (heading (handleInput dt inp s)) (velocity (handleInput dt inp s))
     \<and> vec_y (velocity (update dt inp terrain land s)) =
         ((if vec_y (velocity s) < 0 then 0 else vec_y (velocity s))
            + jumpForce * (0.8 + c * 1.5) - gravity * dt) * (1 - 0.05 * dt)
     \<and> jumpCharge (update dt inp terrain land s) = 0
     \<and> trickSystem (update dt inp terrain land s) =
         trickSystem s
         @ (if grounded s then [] else [TrickUpdate dt (rotationDelta dt inp s)])
         @ [StartJump]
     \<and> count_list (trickSystem (update dt inp terrain land s)) StartJump =
         count_list (trickSystem s) StartJump + 1"
proof -
  have rel: "jumpReleased inp s"
    using assms by (simp add: jumpReleased_def)
  have g1: "grounded (handleInput dt inp s) = False"
    using rel by (simp add: grounded_handleInput)
  have a1: "airTime (handleInput dt inp s) = 1.0"
    using rel by (simp add: airTime_handleInput)
  have v1: "velocity (handleInput dt inp s) =
         (velocity s)\<lparr>vec_y := (if vec_y (velocity s) < 0 then 0 else vec_y (velocity s))
                                  + jumpForce * (0.8 + c * 1.5)\<rparr>"
    using rel assms(1) by (simp add: velocity_handleInput)
  have j1: "jumpCharge (handleInput dt inp s) = 0"
    using assms by (simp add: jumpCharge_handleInput)
  have air: "\<not> grounded (update dt inp terrain land s)"
    using rel grounded_update_not_released by blast
  have a2: "airTime (update dt inp terrain land s) = airTime (handleInput dt inp s) + dt"
    using air by (simp add: airTime_update)
  have v2: "velocity (update dt inp terrain land s) =
         airVelocity dt inp (heading (handleInput dt inp s)) (velocity (handleInput dt inp s))"
    using air by (simp add: velocity_update)
  have vy: "vec_y (velocity (update dt inp terrain land s)) =
         ((if vec_y (velocity s) < 0 then 0 else vec_y (velocity s))
            + jumpForce * (0.8 + c * 1.5) - gravity * dt) * (1 - 0.05 * dt)"
    by (simp add: v2 vec_y_airVelocity_any v1)
  have j2: "jumpCharge (update dt inp terrain land s) = 0"
    using j1 by (simp add: jumpCharge_update)
  have ts: "trickSystem (update dt inp terrain land s) =
         trickSystem s
         @ (if grounded s then [] else [TrickUpdate dt (rotationDelta dt inp s)])
         @ [StartJump]"
    using rel air by (simp add: trickSystem_update)
  have cnt: "count_list (trickSystem (update dt inp terrain land s)) StartJump =
         count_list (trickSystem s) StartJump + 1"
    by (simp add: ts)
  from g1 a1 v1 j1 air a2 v2 vy j2 ts cnt show ?thesis
    by simp
qed

theorem jump_release_witness:
  "jumpCharge chargedOnGround = 0.75
   \<and> (0.75::real) > 0
   \<and> (grounded chargedOnGround \<or> airTime chargedOnGround < 0.25)
   \<and> \<not> jump noActions
   \<and> velocity (handleInput 0.1 noActions chargedOnGround) = Vector3 0 19.25 0
   \<and> grounded (update 0.1 noActions (flatTerrain 0) noTrick chargedOnGround) = False
   \<and> airTime (update 0.1 noActions (flatTerrain 0) noTrick chargedOnGround) = 1.1
   \<and> vec_y (velocity (update 0.1 noActions (flatTerrain 0) noTrick chargedOnGround)) = 16.16875
   \<and> jumpCharge (update 0.1 noActions (flatTerrain 0) noTrick chargedOnGround) = 0
   \<and> trickSystem (update 0.1 noActions (flatTerrain 0) noTrick chargedOnGround) = [StartJump]"
  using jump_release [of chargedOnGround "0.75" noActions "0.1" "flatTerrain 0" noTrick]
  by (simp add: chargedOnGround_def initial_def noActions_def Vector3_def jumpForce_def
        gravity_def vec_y_airVelocity_any)

subsection \<open>C2: the ground test\<close>

text \<open>
  Claim C2. On every tick the rider is classified grounded if and only if
  \<open>position.y - averageGroundElevation \<le> snapDistance + 0.5\<close> and \<open>velocity.y \<le> 0.1\<close>.
  This holds of \<^verbatim>\<open>handlePhysics\<close> on the state it is given, and of the whole update with
  the values that \<^verbatim>\<open>handleInput\<close> hands to it (it leaves the position alone, and may
  turn the heading under which the terrain is probed and add a launch to velocity.y).
  In particular a tick can only end grounded if \<open>velocity.y \<le> 0.1\<close>, also for the
  velocity the tick started with.
\<close>

theorem contact_classification:
  "(grounded (handlePhysics dt inp terrain land s) \<longleftrightarrow>
      vec_y (position s) - averageGroundElevation terrain (position s) (heading s)
        \<le> snapDistance + 0.5
      \<and> vec_y (velocity s) \<le> 0.1)
   \<and> (grounded (update dt inp terrain land s) \<longleftrightarrow>
        vec_y (position s)
          - averageGroundElevation terrain (position s) (heading (handleInput dt inp s))
          \<le> snapDistance + 0.5
        \<and> vec_y (velocity (handleInput dt inp s)) \<le> 0.1)
   \<and> (grounded (update dt inp terrain land s) \<longrightarrow> vec_y (velocity s) \<le> 0.1)"
proof -
  have a: "grounded (handlePhysics dt inp terrain land s) \<longleftrightarrow>
      vec_y (position s) - averageGroundElevation terrain (position s) (heading s)
        \<le> snapDistance + 0.5
      \<and> vec_y (velocity s) \<le> 0.1"
    by (simp add: handlePhysics_fields checkGround_iff)
  have b: "grounded (update dt inp terrain land s) \<longleftrightarrow>
        vec_y (position s)
          - averageGroundElevation terrain (position s) (heading (handleInput dt inp s))
          \<le> snapDistance + 0.5
        \<and> vec_y (velocity (handleInput dt inp s)) \<le> 0.1"
    by (simp add: grounded_update checkGround_iff handleInput_fields)
  have c: "vec_y (velocity s) \<le> 0.1" if g: "grounded (update dt inp terrain land s)"
  proof -
    from g have "\<not> jumpReleased inp s" by (rule grounded_update_not_released)
    then have "velocity (handleInput dt inp s) = velocity s"
      by (simp add: velocity_handleInput)
    with g b show ?thesis by simp
  qed
  from a b c show ?thesis by blast
qed

theorem contact_classification_witness:
  "grounded (update 0.1 noActions (flatTerrain 0) noTrick restingAboveGround)
   \<and> vec_y (velocity restingAboveGround) \<le> 0.1
   \<and> \<not> grounded (update 0.1 noActions (flatTerrain 0) noTrick initial)"
  using contact_classification [of "0.1" noActions "flatTerrain 0" noTrick restingAboveGround]
    contact_classification [of "0.1" noActions "flatTerrain 0" noTrick initial]
  by (simp add: averageGroundElevation_def successfulHits_def offsets_def flatTerrain_def
        restingAboveGround_def initial_def Vector3_def snapDistance_def
        velocity_handleInput jumpReleased_def noActions_def)

subsection \<open>C3: the landing transition\<close>

text \<open>
  Claim C3. On a tick that starts airborne and is classified grounded,
  \<^verbatim>\<open>trickSystem.land()\<close> is called exactly once, after the rotation report of the tick.
  With positive points the score grows by them and the name is recorded; with
  \<open>points = 0\<close> score and name stay. Whatever the result, the landing branch resets pitch
  and roll to 0 and \<open>airTime\<close> to 0: pitch and \<open>airTime\<close> are 0 at the end of the tick, roll
  is 0 when \<^verbatim>\<open>handlePhysics\<close> returns, and the lean of the same tick then starts from that
  0, giving \<open>lerp 0 targetLean (dt * 5)\<close>.
\<close>

theorem landing_transition:
  assumes "\<not> grounded s" and "grounded (update dt inp terrain land s)"
  shows "trickSystem (update dt inp terrain land s) =
           trickSystem s @ [TrickUpdate dt (rotationDelta dt inp s), Land]
     \<and> count_list (trickSystem (update dt inp terrain land s)) Land =
           count_list (trickSystem s) Land + 1
     \<and> (let t = land (trickSystem s @ [TrickUpdate dt (rotationDelta dt inp s)])
        in (points t > 0 \<longrightarrow>
              score (update dt inp terrain land s) = score s + points t
              \<and> lastTruncName (update dt inp terrain land s) = name t)
         \<and> (points t = 0 \<longrightarrow>
              score (update dt inp terrain land s) = score s
              \<and> lastTruncName (update dt inp terrain land s) = lastTruncName s))
     \<and> pitch (update dt inp terrain land s) = 0
     \<and> airTime (update dt inp terrain land s) = 0
     \<and> roll (handlePhysics dt inp terrain land (handleInput dt inp s)) = 0
     \<and> roll (update dt inp terrain land s) = lerp 0 (lateralTurn inp * 0.5) (dt * 5)"
proof -
  from assms(2) have nr: "\<not> jumpReleased inp s"
    by (rule grounded_update_not_released)
  from assms(2) have cg: "checkGround terrain (handleInput dt inp s)"
    by (simp add: grounded_update)
  from assms(1) cg have ln: "landsNow terrain (handleInput dt inp s)"
    by (simp add: landsNow_handleInput)
  have ts: "trickSystem (handleInput dt inp s) =
      trickSystem s @ [TrickUpdate dt (rotationDelta dt inp s)]"
    using assms(1) nr by (simp add: trickSystem_handleInput)
  have calls: "trickSystem (update dt inp terrain land s) =
           trickSystem s @ [TrickUpdate dt (rotationDelta dt inp s), Land]"
    using assms nr by (simp add: trickSystem_update)
  have sc: "score (update dt inp terrain land s) =
      (if points (land (trickSystem s @ [TrickUpdate dt (rotationDelta dt inp s)])) > 0
       then score s + points (land (trickSystem s @ [TrickUpdate dt (rotationDelta dt inp s)]))
       else score s)"
    using assms by (simp add: score_update ts)
  have nm: "lastTruncName (update dt inp terrain land s) =
      (if points (land (trickSystem s @ [TrickUpdate dt (rotationDelta dt inp s)])) > 0
       then name (land (trickSystem s @ [TrickUpdate dt (rotationDelta dt inp s)]))
       else lastTruncName s)"
    using assms by (simp add: lastTruncName_update ts)
  have p: "pitch (update dt inp terrain land s) = 0"
    using assms by (simp add: pitch_update)
  have a: "airTime (update dt inp terrain land s) = 0"
    using assms by (simp add: airTime_update)
  have r1: "roll (handlePhysics dt inp terrain land (handleInput dt inp s)) = 0"
    using ln by (simp add: roll_handlePhysics)
  have r2: "roll (update dt inp terrain land s) = lerp 0 (lateralTurn inp * 0.5) (dt * 5)"
    using cg r1 by (simp add: roll_update Let_def handlePhysics_fields lateralTurn_def)
  show ?thesis
    unfolding Let_def using calls sc nm p a r1 r2 by simp
qed

theorem landing_transition_witness:
  "\<not> grounded descending
   \<and> grounded (update 0.1 (noActions\<lparr>left := True\<rparr>) (flatTerrain 0) someTrick descending)
   \<and> trickSystem (update 0.1 (noActions\<lparr>left := True\<rparr>) (flatTerrain 0) someTrick descending) =
       [TrickUpdate 0.1 0.6, Land]
   \<and> score (update 0.1 (noActions\<lparr>left := True\<rparr>) (flatTerrain 0) someTrick descending) = 100
   \<and> lastTruncName (update 0.1 (noActions\<lparr>left := True\<rparr>) (flatTerrain 0) someTrick descending)
       = ''Backflip''
   \<and> pitch (update 0.1 (noActions\<lparr>left := True\<rparr>) (flatTerrain 0) someTrick descending) = 0
   \<and> airTime (update 0.1 (noActions\<lparr>left := True\<rparr>) (flatTerrain 0) someTrick descending) = 0
   \<and> roll (update 0.1 (noActions\<lparr>left := True\<rparr>) (flatTerrain 0) someTrick descending) = 0.25"
proof -
  have ng: "\<not> grounded descending"
    by (simp add: descending_def initial_def)
  have g: "grounded (update 0.1 (noActions\<lparr>left := True\<rparr>) (flatTerrain 0) someTrick descending)"
    by (simp add: grounded_update checkGround_iff handleInput_fields
          averageGroundElevation_flat velocity_handleInput jumpReleased_def
          descending_def initial_def Vector3_def snapDistance_def noActions_def)
  show ?thesis
    using ng g landing_transition [OF ng g]
    by (simp add: descending_def initial_def someTrick_def rotationDelta_def lateralTurn_def
          noActions_def turnSpeed_def lerp_def Let_def)
qed

subsection \<open>C4: the jump charge stays within its bounds\<close>

text \<open>
  Claim C4. On a tick (a time step \<open>dt \<ge> 0\<close>), whatever the input, the terrain and
  the trick system: if \<open>jumpCharge\<close> is within \<open>[0, maxJumpCharge]\<close> before the update,
  it is within \<open>[0, maxJumpCharge]\<close> after it.
\<close>

theorem jumpCharge_bounded:
  assumes "0 \<le> dt" and "0 \<le> jumpCharge s" and "jumpCharge s \<le> maxJumpCharge"
  shows "0 \<le> jumpCharge (update dt inp terrain land s)
       \<and> jumpCharge (update dt inp terrain land s) \<le> maxJumpCharge"
  using assms
  by (simp add: update_fields handlePhysics_fields jumpCharge_handleInput maxJumpCharge_def)

theorem jumpCharge_bounded_witness:
  "(0::real) \<le> 0.2
   \<and> 0 \<le> jumpCharge chargedOnGround
   \<and> jumpCharge chargedOnGround \<le> maxJumpCharge
   \<and> 0 \<le> jumpCharge (update 0.2 (noActions\<lparr>jump := True\<rparr>) emptyTerrain noTrick chargedOnGround)
   \<and> jumpCharge (update 0.2 (noActions\<lparr>jump := True\<rparr>) emptyTerrain noTrick chargedOnGround)
       \<le> maxJumpCharge"
  using jumpCharge_bounded [of "0.2" chargedOnGround "noActions\<lparr>jump := True\<rparr>"
      emptyTerrain noTrick]
  by (simp add: chargedOnGround_def initial_def maxJumpCharge_def)

subsection \<open>C5: coyote time\<close>

text \<open>
  Claim C5. Charging is permitted exactly when the rider is grounded, or airborne with
  \<open>airTime\<close> below 0.25: there, with jump held, \<open>jumpCharge\<close> grows by \<open>1.5 * dt\<close> up to
  \<open>maxJumpCharge\<close>, in particular while airborne with \<open>airTime = 0.1\<close>. On an airborne
  tick with \<open>airTime\<close> above 0.25, \<open>jumpCharge\<close> is 0 after the update whether jump is
  held or not; at exactly 0.25 it keeps its value.
\<close>

theorem coyote_charging:
  "((grounded s \<or> airTime s < 0.25) \<and> jump inp \<longrightarrow>
      jumpCharge (update dt inp terrain land s) = min (jumpCharge s + dt * 1.5) maxJumpCharge)
   \<and> (\<not> grounded s \<and> airTime s = 0.1 \<and> jump inp \<longrightarrow>
      jumpCharge (update dt inp terrain land s) = min (jumpCharge s + dt * 1.5) maxJumpCharge)
   \<and> (\<not> grounded s \<and> airTime s > 0.25 \<longrightarrow>
      jumpCharge (update dt inp terrain land s) = 0)
   \<and> (\<not> grounded s \<and> airTime s = 0.25 \<longrightarrow>
      jumpCharge (update dt inp terrain land s) = jumpCharge s)"
  by (simp add: jumpCharge_update jumpCharge_handleInput)

theorem coyote_charging_witness:
  "\<not> grounded coyoteRider \<and> airTime coyoteRider = 0.1 \<and> jump (noActions\<lparr>jump := True\<rparr>)
   \<and> jumpCharge (update 0.1 (noActions\<lparr>jump := True\<rparr>) emptyTerrain noTrick coyoteRider) = 0.45
   \<and> \<not> grounded lateRider \<and> airTime lateRider > 0.25
   \<and> jumpCharge (update 0.1 (noActions\<lparr>jump := True\<rparr>) emptyTerrain noTrick lateRider) = 0"
  using coyote_charging [of coyoteRider "noActions\<lparr>jump := True\<rparr>" "0.1" emptyTerrain noTrick]
    coyote_charging [of lateRider "noActions\<lparr>jump := True\<rparr>" "0.1" emptyTerrain noTrick]
  by (simp add: coyoteRider_def lateRider_def initial_def maxJumpCharge_def)

subsection \<open>C6: a tick on which no ray meets the terrain\<close>

text \<open>
  Claim C6 says that a tick on which all five rays miss always classifies the rider as
  ungrounded. With no hit the ground elevation is the fixed value -1000, and the ground
  test is the same comparison as ever, so a rider within one unit of -1000 that is not
  moving up passes it. Counterexample to C6: a rider at height -999.5, falling, with no
  terrain below; no ray hits, the rider was airborne, and the tick ends grounded.
  (\<open>void_fall_lands\<close> above reaches such a tick from the constructor's state.)
\<close>

theorem no_hits_counterexample:
  "successfulHits emptyTerrain (position fallenRider)
      (heading (handleInput 0.1 noActions fallenRider)) = []
   \<and> \<not> grounded fallenRider
   \<and> grounded (update 0.1 noActions emptyTerrain noTrick fallenRider)"
  by (simp add: successfulHits_empty grounded_update checkGround_iff handleInput_fields
        averageGroundElevation_def velocity_handleInput jumpReleased_def
        fallenRider_def initial_def Vector3_def snapDistance_def noActions_def)

text \<open>
  Claim C6, amended. On a tick on which all five rays miss, the ground elevation is
  -1000 and the ground normal is world-up, and the rider is classified grounded exactly
  when \<open>position.y \<le> -999\<close> and \<open>velocity.y \<le> 0.1\<close> (the velocity that \<^verbatim>\<open>handleInput\<close>
  hands on). So every rider above -999 is classified ungrounded on that tick,
  whatever \<open>grounded\<close> was before.
\<close>

theorem no_hits_classification:
  assumes "successfulHits terrain (position s) (heading (handleInput dt inp s)) = []"
  shows "probeGround terrain (position s) (heading (handleInput dt inp s)) = (-1000, Vector3 0 1 0)
     \<and> (grounded (update dt inp terrain land s) \<longleftrightarrow>
          vec_y (position s) \<le> -999 \<and> vec_y (velocity (handleInput dt inp s)) \<le> 0.1)
     \<and> (vec_y (position s) > -999 \<longrightarrow> \<not> grounded (update dt inp terrain land s))"
proof -
  from assms have "\<forall>offset \<in> set offsets.
      terrain (rayOrigin (position s) (heading (handleInput dt inp s)) offset) = None"
    by (simp add: successfulHits_Nil_iff)
  then have pg: "probeGround terrain (position s) (heading (handleInput dt inp s))
      = (-1000, Vector3 0 1 0)"
    by (rule probeGround_no_hits)
  have g: "grounded (update dt inp terrain land s) \<longleftrightarrow>
          vec_y (position s) \<le> -999 \<and> vec_y (velocity (handleInput dt inp s)) \<le> 0.1"
    using assms
    by (auto simp: grounded_update checkGround_iff handleInput_fields
          averageGroundElevation_def snapDistance_def)
  from pg g show ?thesis by simp
qed

theorem no_hits_classification_witness:
  "successfulHits emptyTerrain (position restingAboveGround)
      (heading (handleInput 0.1 noActions restingAboveGround)) = []
   \<and> grounded restingAboveGround
   \<and> vec_y (position restingAboveGround) > -999
   \<and> \<not> grounded (update 0.1 noActions emptyTerrain noTrick restingAboveGround)"
  using no_hits_classification [of emptyTerrain restingAboveGround "0.1" noActions noTrick]
  by (simp add: successfulHits_empty restingAboveGround_def initial_def Vector3_def)

subsection \<open>C7: a tick of length zero\<close>

text \<open>
  Claim C7 says that an update with \<open>dt = 0\<close> leaves position, velocity, heading and
  score unchanged. Counterexample to C7, one tick each with \<open>dt = 0\<close>: a grounded rider
  half a unit above level ground is put on the ground (the position changes); a grounded
  rider with charge and the jump action not held is launched (the velocity changes); an
  airborne rider within reach of the ground lands a scoring trick (the score changes).
\<close>

theorem zero_step_counterexample:
  "position (update 0 noActions (flatTerrain 0) noTrick restingAboveGround)
     \<noteq> position restingAboveGround
   \<and> velocity (update 0 noActions emptyTerrain noTrick chargedOnGround)
     \<noteq> velocity chargedOnGround
   \<and> score (update 0 noActions (flatTerrain 0) someTrick descending) \<noteq> score descending"
proof -
  have g: "grounded (update 0 noActions (flatTerrain 0) noTrick restingAboveGround)"
    by (simp add: grounded_update checkGround_iff handleInput_fields
          averageGroundElevation_flat velocity_handleInput jumpReleased_def
          restingAboveGround_def initial_def Vector3_def snapDistance_def noActions_def)
  have "vec_y (position (update 0 noActions (flatTerrain 0) noTrick restingAboveGround)) = 0"
    by (simp add: position_update g vadd_multiplyScalar_zero averageGroundElevation_flat)
  moreover have "vec_y (position restingAboveGround) = 0.5"
    by (simp add: restingAboveGround_def initial_def Vector3_def)
  ultimately have p: "position (update 0 noActions (flatTerrain 0) noTrick restingAboveGround)
     \<noteq> position restingAboveGround"
    by auto
  have rel: "jumpReleased noActions chargedOnGround"
    by (simp add: jumpReleased_def noActions_def chargedOnGround_def initial_def)
  then have "\<not> grounded (update 0 noActions emptyTerrain noTrick chargedOnGround)"
    using grounded_update_not_released by blast
  then have "vec_y (velocity (update 0 noActions emptyTerrain noTrick chargedOnGround)) = 19.25"
    using rel
    by (simp add: velocity_update airVelocity_zero velocity_handleInput
          chargedOnGround_def initial_def Vector3_def jumpForce_def)
  moreover have "vec_y (velocity chargedOnGround) = 0"
    by (simp add: chargedOnGround_def initial_def Vector3_def)
  ultimately have v: "velocity (update 0 noActions emptyTerrain noTrick chargedOnGround)
     \<noteq> velocity chargedOnGround"
    by auto
  have gd: "grounded (update 0 noActions (flatTerrain 0) someTrick descending)"
    by (simp add: grounded_update checkGround_iff handleInput_fields
          averageGroundElevation_flat velocity_handleInput jumpReleased_def
          descending_def initial_def Vector3_def snapDistance_def noActions_def)
  have "score (update 0 noActions (flatTerrain 0) someTrick descending) = 100"
    using gd by (simp add: score_update someTrick_def descending_def initial_def)
  moreover have "score descending = 0"
    by (simp add: descending_def initial_def)
  ultimately have sc: "score (update 0 noActions (flatTerrain 0) someTrick descending)
      \<noteq> score descending"
    by simp
  from p v sc show ?thesis by simp
qed

text \<open>
  Claim C7, amended. An update with \<open>dt = 0\<close> leaves the heading unchanged. It leaves
  the score unchanged unless the tick is a landing (airborne before, grounded after).
  On a tick that ends airborne it leaves the position unchanged, and the velocity too
  unless a jump is released. On a tick that ends grounded the position keeps x and z and
  takes the average ground elevation as y, and the velocity is unchanged when its length
  is at most \<open>maxSpeed\<close> and it does not point into the ground.
\<close>

theorem zero_step:
  "heading (update 0 inp terrain land s) = heading s
   \<and> (\<not> (\<not> grounded s \<and> grounded (update 0 inp terrain land s)) \<longrightarrow>
        score (update 0 inp terrain land s) = score s)
   \<and> (\<not> grounded (update 0 inp terrain land s) \<longrightarrow>
        position (update 0 inp terrain land s) = position s)
   \<and> (\<not> grounded (update 0 inp terrain land s) \<and> \<not> jumpReleased inp s \<longrightarrow>
        velocity (update 0 inp terrain land s) = velocity s)
   \<and> (grounded (update 0 inp terrain land s) \<longrightarrow>
        position (update 0 inp terrain land s) =
          (position s)\<lparr>vec_y := averageGroundElevation terrain (position s) (heading s)\<rparr>)
   \<and> (grounded (update 0 inp terrain land s)
        \<and> vlength (velocity s) \<le> maxSpeed
        \<and> 0 \<le> vdot (velocity s) (groundNormal terrain s) \<longrightarrow>
        velocity (update 0 inp terrain land s) = velocity s)"
proof -
  have h1: "heading (handleInput 0 inp s) = heading s"
    by (simp add: heading_handleInput rotationDelta_zero)
  then have h: "heading (update 0 inp terrain land s) = heading s"
    by (simp add: heading_update)
  have sc: "score (update 0 inp terrain land s) = score s"
    if "\<not> (\<not> grounded s \<and> grounded (update 0 inp terrain land s))"
    using that by (auto simp: score_update)
  have pa: "position (update 0 inp terrain land s) = position s"
    if "\<not> grounded (update 0 inp terrain land s)"
    using that by (simp add: position_update vadd_multiplyScalar_zero)
  have va: "velocity (update 0 inp terrain land s) = velocity s"
    if "\<not> grounded (update 0 inp terrain land s)" "\<not> jumpReleased inp s"
    using that by (simp add: velocity_update airVelocity_zero velocity_handleInput)
  have pg: "position (update 0 inp terrain land s) =
          (position s)\<lparr>vec_y := averageGroundElevation terrain (position s) (heading s)\<rparr>"
    if "grounded (update 0 inp terrain land s)"
    using that by (simp add: position_update vadd_multiplyScalar_zero h1)
  have gn: "groundNormal terrain (handleInput 0 inp s) = groundNormal terrain s"
    by (simp add: groundNormal_def h1 handleInput_fields)
  have vg: "velocity (update 0 inp terrain land s) = velocity s"
    if g: "grounded (update 0 inp terrain land s)"
      and "vlength (velocity s) \<le> maxSpeed"
      and "0 \<le> vdot (velocity s) (groundNormal terrain s)"
  proof -
    from g have "\<not> jumpReleased inp s" by (rule grounded_update_not_released)
    then have "velocity (handleInput 0 inp s) = velocity s"
      by (simp add: velocity_handleInput)
    with that show ?thesis
      by (simp add: velocity_update gn groundVelocity_zero)
  qed
  from h sc pa va pg vg show ?thesis by blast
qed

theorem zero_step_witness:
  "\<not> grounded (update 0 (noActions\<lparr>left := True\<rparr>) (flatTerrain 0) noTrick initial)
   \<and> \<not> jumpReleased (noActions\<lparr>left := True\<rparr>) initial
   \<and> heading (update 0 (noActions\<lparr>left := True\<rparr>) (flatTerrain 0) noTrick initial) = heading initial
   \<and> score (update 0 (noActions\<lparr>left := True\<rparr>) (flatTerrain 0) noTrick initial) = score initial
   \<and> position (update 0 (noActions\<lparr>left := True\<rparr>) (flatTerrain 0) noTrick initial) = position initial
   \<and> velocity (update 0 (noActions\<lparr>left := True\<rparr>) (flatTerrain 0) noTrick initial) = velocity initial
   \<and> grounded (update 0 noActions (flatTerrain 0) noTrick restingAboveGround)
   \<and> vlength (velocity restingAboveGround) \<le> maxSpeed
   \<and> 0 \<le> vdot (velocity restingAboveGround) (groundNormal (flatTerrain 0) restingAboveGround)
   \<and> position (update 0 noActions (flatTerrain 0) noTrick restingAboveGround) = Vector3 0 0 40
   \<and> velocity (update 0 noActions (flatTerrain 0) noTrick restingAboveGround)
       = velocity restingAboveGround"
proof -
  have air: "\<not> grounded (update 0 (noActions\<lparr>left := True\<rparr>) (flatTerrain 0) noTrick initial)"
    by (simp add: grounded_update checkGround_iff handleInput_fields
          averageGroundElevation_flat initial_def Vector3_def snapDistance_def)
  have nr: "\<not> jumpReleased (noActions\<lparr>left := True\<rparr>) initial"
    by (simp add: jumpReleased_def initial_def)
  have g: "grounded (update 0 noActions (flatTerrain 0) noTrick restingAboveGround)"
    by (simp add: grounded_update checkGround_iff handleInput_fields
          averageGroundElevation_flat velocity_handleInput jumpReleased_def
          restingAboveGround_def initial_def Vector3_def snapDistance_def noActions_def)
  have v0: "velocity restingAboveGround = Vector3 0 0 0"
    by (simp add: restingAboveGround_def initial_def)
  have len: "vlength (velocity restingAboveGround) \<le> maxSpeed"
    by (simp add: v0 vlength_def Vector3_def maxSpeed_def)
  have dot: "0 \<le> vdot (velocity restingAboveGround)
      (groundNormal (flatTerrain 0) restingAboveGround)"
    by (simp add: v0 vdot_def Vector3_def)
  have p0: "(position restingAboveGround)\<lparr>vec_y := 0\<rparr> = Vector3 0 0 40"
    by (simp add: restingAboveGround_def initial_def Vector3_def)
  show ?thesis
    using air nr g len dot
      zero_step [of "noActions\<lparr>left := True\<rparr>" "flatTerrain 0" noTrick initial]
      zero_step [of noActions "flatTerrain 0" noTrick restingAboveGround]
    by (simp add: averageGroundElevation_flat p0)
qed

subsection \<open>C8: flipping without lateral input\<close>

text \<open>
  Claim C8. On a tick that starts airborne, with forward held and neither left nor right:
  the rotation delta is 0 and that is what \<^verbatim>\<open>trickSystem.update\<close> receives;
  \<^verbatim>\<open>handleInput\<close> lowers the pitch by \<open>5 * dt\<close>, strictly so for \<open>dt > 0\<close>; the heading is
  unchanged, after \<^verbatim>\<open>handleInput\<close> and after the whole update. When the tick also ends
  airborne, the pitch after the whole update is the lowered one.
\<close>

theorem flip_without_lateral:
  assumes "\<not> grounded s" and "forward inp" and "\<not> left inp" and "\<not> right inp"
  shows "rotationDelta dt inp s = 0
     \<and> trickSystem (handleInput dt inp s) =
         trickSystem s @ [TrickUpdate dt 0] @ (if jumpReleased inp s then [StartJump] else [])
     \<and> pitch (handleInput dt inp s) = pitch s - 5.0 * dt
     \<and> (0 < dt \<longrightarrow> pitch (handleInput dt inp s) < pitch s)
     \<and> heading (handleInput dt inp s) = heading s
     \<and> heading (update dt inp terrain land s) = heading s
     \<and> (\<not> grounded (update dt inp terrain land s) \<longrightarrow>
          pitch (update dt inp terrain land s) = pitch s - 5.0 * dt)"
proof -
  have rd: "rotationDelta dt inp s = 0"
    using assms by (simp add: rotationDelta_def)
  show ?thesis
    using assms rd
    by (simp add: trickSystem_handleInput pitch_handleInput heading_handleInput
          heading_update pitch_update)
qed

theorem flip_without_lateral_witness:
  "\<not> grounded initial \<and> forward (noActions\<lparr>forward := True\<rparr>)
   \<and> \<not> left (noActions\<lparr>forward := True\<rparr>) \<and> \<not> right (noActions\<lparr>forward := True\<rparr>)
   \<and> trickSystem (handleInput 0.1 (noActions\<lparr>forward := True\<rparr>) initial) = [TrickUpdate 0.1 0]
   \<and> pitch (handleInput 0.1 (noActions\<lparr>forward := True\<rparr>) initial) = - 0.5
   \<and> heading (update 0.1 (noActions\<lparr>forward := True\<rparr>) (flatTerrain 0) noTrick initial) = 0
   \<and> pitch (update 0.1 (noActions\<lparr>forward := True\<rparr>) (flatTerrain 0) noTrick initial) = - 0.5"
proof -
  have air: "\<not> grounded (update 0.1 (noActions\<lparr>forward := True\<rparr>) (flatTerrain 0) noTrick initial)"
    by (simp add: grounded_update checkGround_iff handleInput_fields
          averageGroundElevation_def successfulHits_def offsets_def flatTerrain_def
          initial_def Vector3_def snapDistance_def)
  show ?thesis
    using air flip_without_lateral [of initial "noActions\<lparr>forward := True\<rparr>" "0.1" "flatTerrain 0" noTrick]
    by (simp add: initial_def noActions_def jumpReleased_def)
qed

subsection \<open>C9: roll does not flow into the physics\<close>

text \<open>
  Claim C9. Two states that agree on every field except \<open>roll\<close> are taken by one update,
  under the same input, terrain and trick system, to states that agree on position,
  velocity, heading, pitch, grounded, airTime, jumpCharge and score, and also on the
  recorded trick name, the calls made on the trick system, the body scale and the mesh
  position: everything but \<open>roll\<close> and the mesh angle that copies it.
\<close>

theorem roll_noninterference:
  assumes "s2 = s1\<lparr>roll := r\<rparr>"
  shows "position (update dt inp terrain land s2) = position (update dt inp terrain land s1)
     \<and> velocity (update dt inp terrain land s2) = velocity (update dt inp terrain land s1)
     \<and> heading (update dt inp terrain land s2) = heading (update dt inp terrain land s1)
     \<and> pitch (update dt inp terrain land s2) = pitch (update dt inp terrain land s1)
     \<and> grounded (update dt inp terrain land s2) = grounded (update dt inp terrain land s1)
     \<and> airTime (update dt inp terrain land s2) = airTime (update dt inp terrain land s1)
     \<and> jumpCharge (update dt inp terrain land s2) = jumpCharge (update dt inp terrain land s1)
     \<and> score (update dt inp terrain land s2) = score (update dt inp terrain land s1)
     \<and> lastTruncName (update dt inp terrain land s2)
          = lastTruncName (update dt inp terrain land s1)
     \<and> trickSystem (update dt inp terrain land s2)
          = trickSystem (update dt inp terrain land s1)
     \<and> body_scale_y (update dt inp terrain land s2)
          = body_scale_y (update dt inp terrain land s1)
     \<and> mesh_position (update dt inp terrain land s2)
          = mesh_position (update dt inp terrain land s1)"
proof -
  define u where "u = update dt inp terrain land s1"
  define r' where "r' = roll (update dt inp terrain land (s1\<lparr>roll := r\<rparr>))"
  have "update dt inp terrain land (s1\<lparr>roll := r\<rparr>) =
      u\<lparr>roll := r', mesh_rotation := (mesh_rotation u)\<lparr>vec_z := r'\<rparr>\<rparr>"
    unfolding u_def r'_def by (rule update_roll)
  then show ?thesis
    unfolding u_def [symmetric] assms by simp
qed

theorem roll_noninterference_witness:
  "descending\<lparr>roll := 1.5\<rparr> = descending\<lparr>roll := 1.5\<rparr>
   \<and> roll (descending\<lparr>roll := 1.5\<rparr>) \<noteq> roll descending
   \<and> position (update 0.1 (noActions\<lparr>left := True\<rparr>) (flatTerrain 0) someTrick
         (descending\<lparr>roll := 1.5\<rparr>))
       = position (update 0.1 (noActions\<lparr>left := True\<rparr>) (flatTerrain 0) someTrick descending)
   \<and> velocity (update 0.1 (noActions\<lparr>left := True\<rparr>) (flatTerrain 0) someTrick
         (descending\<lparr>roll := 1.5\<rparr>))
       = velocity (update 0.1 (noActions\<lparr>left := True\<rparr>) (flatTerrain 0) someTrick descending)
   \<and> score (update 0.1 (noActions\<lparr>left := True\<rparr>) (flatTerrain 0) someTrick
         (descending\<lparr>roll := 1.5\<rparr>))
       = score (update 0.1 (noActions\<lparr>left := True\<rparr>) (flatTerrain 0) someTrick descending)"
  using roll_noninterference [where ?s2.0 = "descending\<lparr>roll := 1.5\<rparr>"
      and ?s1.0 = descending and r = "1.5" and dt = "0.1"
      and inp = "noActions\<lparr>left := True\<rparr>" and terrain = "flatTerrain 0"
      and land = someTrick]
  by (simp add: descending_def initial_def)

subsection \<open>C10: the vertical snap of a grounded tick\<close>

text \<open>
  Claim C10. On every tick classified grounded, landing or not, \<open>position.y\<close> at the end
  of the tick is the average ground elevation plus \<open>velocity.y * dt\<close>, with the velocity
  of the end of the tick: the height the tick started at plays no part.
\<close>

theorem grounded_snap:
  assumes "grounded (update dt inp terrain land s)"
  shows "vec_y (position (update dt inp terrain land s)) =
           averageGroundElevation terrain (position s) (heading (handleInput dt inp s))
           + vec_y (velocity (update dt inp terrain land s)) * dt"
proof -
  from assms have cg: "checkGround terrain (handleInput dt inp s)"
    by (simp add: grounded_update)
  show ?thesis
    by (simp add: update_fields(1,2) position_handlePhysics cg vec_y_vadd
          vec_y_multiplyScalar groundHeight_average handleInput_fields)
qed

theorem grounded_snap_witness:
  "grounded (update 0.1 noActions (flatTerrain 0) noTrick restingAboveGround)
   \<and> grounded restingAboveGround
   \<and> vec_y (position restingAboveGround) = 0.5
   \<and> vec_y (position (update 0.1 noActions (flatTerrain 0) noTrick restingAboveGround)) =
       0 + vec_y (velocity (update 0.1 noActions (flatTerrain 0) noTrick restingAboveGround)) * 0.1"
proof -
  have g: "grounded (update 0.1 noActions (flatTerrain 0) noTrick restingAboveGround)"
    by (simp add: grounded_update checkGround_iff handleInput_fields
          averageGroundElevation_flat velocity_handleInput jumpReleased_def
          restingAboveGround_def initial_def Vector3_def snapDistance_def noActions_def)
  show ?thesis
    using g grounded_snap [OF g]
    by (simp add: averageGroundElevation_flat restingAboveGround_def initial_def Vector3_def)
qed

end
